theory Spec2Isabelle
  imports Complex_Main
begin

section \<open>Data model\<close>

text \<open>
  The simulation is written in Python. Its floats are modelled as the reals (rounding,
  signed zeros, infinities and NaN are left out), its ints as \<open>int\<close>, its dicts as maps
  and its exceptions as values of \<open>error\<close>. An optional object is an \<open>option\<close>: in a
  test such as \<open>if leader\<close> or \<open>if inter\<close> an object counts as true and \<open>None\<close> as false.
  The route index starts at 0 and is only ever incremented, so it is a \<open>nat\<close>.
\<close>

datatype error = KeyError | IndexError | AttributeError

type_synonym coord = "real \<times> real"

text \<open>
  The class \<open>Street\<close> is imported by \<open>vehicle.py\<close>; the record holds the attributes that
  \<open>Vehicle\<close> reads (\<open>id\<close>, \<open>coords\<close>, \<open>length\<close>, \<open>num_lanes\<close>, \<open>speed_limit\<close>,
  \<open>lane_dirs\<close>, \<open>end_node\<close>).
\<close>

record street =
  street_id :: int
  coords :: "coord list"
  street_length :: real
  num_lanes :: int
  speed_limit :: real
  lane_dirs :: "string list list"
  end_node :: string

text \<open>
  The class \<open>Intersection\<close> is used through one query, \<open>can_vehicle_enter(street_id,
  lane_index)\<close>, taken as a function of its two arguments.
\<close>

record intersection =
  can_vehicle_enter :: "int \<Rightarrow> int \<Rightarrow> bool"

record vehicle =
  vehicle_id :: int
  profile :: string
  speed_factor :: real
  reaction_time :: real
  current_street :: "street option"
  lane_index :: int
  position_s :: real
  route_streets :: "int list"
  route_index :: nat
  streets_map :: "int \<rightharpoonup> street"
  intersections_map :: "string \<rightharpoonup> intersection"
  speed :: real
  max_accel :: real
  max_decel :: real
  base_speed_limit :: real
  done_flag :: bool

definition VEHICLE_PROFILES :: "string \<rightharpoonup> real \<times> real" where
  "VEHICLE_PROFILES =
     [''raser'' \<mapsto> (3 / 2, 4 / 5),
      ''normal'' \<mapsto> (1, 1),
      ''slow_driver'' \<mapsto> (3 / 4, 1)]"

section \<open>The vehicle\<close>

text \<open>
  \<open>Vehicle.__init__\<close>: an unknown profile raises KeyError at the table lookup, a missing
  street raises AttributeError where the base speed limit reads \<open>speed_limit\<close>.
\<close>

definition Vehicle_init ::
  "int \<Rightarrow> string \<Rightarrow> street option \<Rightarrow> int \<Rightarrow> int list \<Rightarrow> (int \<rightharpoonup> street) \<Rightarrow>
   (string \<rightharpoonup> intersection) \<Rightarrow> error + vehicle" where
  "Vehicle_init vid prof cst lane route smap imap =
     (case VEHICLE_PROFILES prof of
        None \<Rightarrow> Inl KeyError
      | Some (sf, rt) \<Rightarrow>
          (case cst of
             None \<Rightarrow> Inl AttributeError
           | Some st \<Rightarrow>
               Inr \<lparr> vehicle_id = vid, profile = prof, speed_factor = sf, reaction_time = rt,
                     current_street = Some st, lane_index = lane, position_s = 0,
                     route_streets = route, route_index = 0, streets_map = smap,
                     intersections_map = imap, speed = 0, max_accel = 2, max_decel = 4,
                     base_speed_limit = speed_limit st * sf, done_flag = False \<rparr>))"

text \<open>\<open>current_street_id\<close>: the street's id, or \<open>-1\<close> without a street.\<close>

definition current_street_id :: "vehicle \<Rightarrow> int" where
  "current_street_id v = (case current_street v of Some st \<Rightarrow> street_id st | None \<Rightarrow> - 1)"

text \<open>
  \<open>math.atan2\<close> and \<open>math.degrees\<close> on the reals: the angle of the point \<open>(x, y)\<close> in
  \<open>(-pi, pi]\<close>, with \<open>atan2 0 0 = 0\<close>. These are the exact functions. The program
  evaluates them on doubles, where a heading carries a rounding error, so the class of
  a turn whose angle lies at one of the thresholds can differ from the one computed
  here. What is proved below about \<open>_next_turn_direction\<close> is how the difference of the
  two headings is normalised and compared; nothing is claimed about the effect of moving
  or scaling the coordinates, which depends on that rounding.
\<close>

definition atan2 :: "real \<Rightarrow> real \<Rightarrow> real" where
  "atan2 y x =
     (if 0 < x then arctan (y / x)
      else if x < 0 then (if 0 \<le> y then arctan (y / x) + pi else arctan (y / x) - pi)
      else if 0 < y then pi / 2
      else if y < 0 then - (pi / 2)
      else 0)"

definition degrees :: "real \<Rightarrow> real" where
  "degrees x = x * (180 / pi)"

text \<open>
  \<open>_next_turn_direction\<close>. The route lookup at \<open>route_index + 1\<close> is in range by the first
  test; a next street id missing from \<open>streets_map\<close> raises KeyError, a polyline with
  fewer than two points raises IndexError.
\<close>

definition next_turn_direction :: "vehicle \<Rightarrow> error + string option" where
  "next_turn_direction v =
     (if int (route_index v) \<ge> int (length (route_streets v)) - 1 then Inr None
      else
        let next_st_id = route_streets v ! (route_index v + 1) in
        case streets_map v next_st_id of
          None \<Rightarrow> Inl KeyError
        | Some next_st \<Rightarrow>
            (case current_street v of
               None \<Rightarrow> Inl AttributeError
             | Some cst \<Rightarrow>
                 let ccoords = coords cst; ncoords = coords next_st in
                 if length ccoords < 2 then Inl IndexError
                 else if length ncoords < 2 then Inl IndexError
                 else
                   let v1 = (fst (ccoords ! (length ccoords - 1)) - fst (ccoords ! (length ccoords - 2)),
                             snd (ccoords ! (length ccoords - 1)) - snd (ccoords ! (length ccoords - 2)));
                       v2 = (fst (ncoords ! 1) - fst (ncoords ! 0),
                             snd (ncoords ! 1) - snd (ncoords ! 0));
                       a1 = atan2 (snd v1) (fst v1);
                       a2 = atan2 (snd v2) (fst v2);
                       diff = degrees (a2 - a1);
                       diff = (if diff > 180 then diff - 360
                               else if diff < - 180 then diff + 360
                               else diff)
                   in if diff > 30 then Inr (Some ''right'')
                      else if diff < - 30 then Inr (Some ''left'')
                      else Inr (Some ''through'')))"

text \<open>
  \<open>_lane_allows_turn\<close>: a lane index outside \<open>0 .. num_lanes - 1\<close> allows nothing; a lane
  index beyond the end of \<open>lane_dirs\<close> raises IndexError.
\<close>

definition lane_allows_turn :: "street \<Rightarrow> int \<Rightarrow> string \<Rightarrow> error + bool" where
  "lane_allows_turn st lane turn =
     (if lane < 0 \<or> lane \<ge> num_lanes st then Inr False
      else if nat lane \<ge> length (lane_dirs st) then Inl IndexError
      else
        let directions = lane_dirs st ! nat lane in
        Inr (if turn = ''through''
             then (turn \<in> set directions \<or> ''through'' \<in> set directions)
             else turn \<in> set directions))"

text \<open>Collision avoidance of \<open>update\<close>: the desired acceleration against the leader.\<close>

definition collision_accel :: "vehicle option \<Rightarrow> vehicle \<Rightarrow> real" where
  "collision_accel leader v =
     (case leader of
        None \<Rightarrow> max_accel v
      | Some l \<Rightarrow>
          if current_street_id l = current_street_id v then
            if lane_index l = lane_index v then
              let gap = position_s l - position_s v - 5 in
              if gap < speed v * reaction_time v then - max_decel v else max_accel v
            else max_accel v
          else max_accel v)"

text \<open>
  Lane change of \<open>update\<close>: the lane index after the check of the pending turn. A turn
  direction is pending when it is neither \<open>None\<close> nor the empty string.
\<close>

definition lane_change :: "string option \<Rightarrow> real \<Rightarrow> street \<Rightarrow> vehicle \<Rightarrow> error + int" where
  "lane_change turn_dir dist_to_end st v =
     (case turn_dir of
        None \<Rightarrow> Inr (lane_index v)
      | Some t \<Rightarrow>
          if t \<noteq> [] \<and> dist_to_end < 50 then
            (case lane_allows_turn st (lane_index v) t of
               Inl e \<Rightarrow> Inl e
             | Inr allowed \<Rightarrow>
                 if \<not> allowed then
                   (if t = ''left'' then
                      (if lane_index v < num_lanes st - 1 then Inr (lane_index v + 1)
                       else Inr (lane_index v))
                    else if t = ''right'' then
                      (if lane_index v > 0 then Inr (lane_index v - 1)
                       else Inr (lane_index v))
                    else Inr (lane_index v))
                 else Inr (lane_index v))
          else Inr (lane_index v))"

text \<open>Traffic light of \<open>update\<close>: braking when the end intersection refuses entry.\<close>

definition signal_accel :: "real \<Rightarrow> real \<Rightarrow> street \<Rightarrow> int \<Rightarrow> vehicle \<Rightarrow> real" where
  "signal_accel desired_accel dist_to_end st lane v =
     (if dist_to_end < 20 then
        (case intersections_map v (end_node st) of
           None \<Rightarrow> desired_accel
         | Some isec \<Rightarrow>
             if \<not> can_vehicle_enter isec (street_id st) lane then - max_decel v
             else desired_accel)
      else desired_accel)"

text \<open>Speed limit and speed update of \<open>update\<close>.\<close>

definition final_limit :: "street \<Rightarrow> vehicle \<Rightarrow> real" where
  "final_limit st v =
     (let street_limit = speed_limit st
      in min (street_limit * speed_factor v) (base_speed_limit v))"

definition new_speed :: "real \<Rightarrow> real \<Rightarrow> street \<Rightarrow> vehicle \<Rightarrow> real" where
  "new_speed dt desired_accel st v =
     (let new_speed = speed v + desired_accel * dt
      in max 0 (min new_speed (final_limit st v)))"

text \<open>
  The end of the street in \<open>update\<close>, for a vehicle \<open>v\<close> whose lane index is already the one
  after the lane change. The result of a raise carries the vehicle as it is at the raise:
  the route index is incremented before the lookup of the next street.
\<close>

definition street_end :: "street \<Rightarrow> vehicle \<Rightarrow> (error \<times> vehicle) + vehicle" where
  "street_end st v =
     (let new_pos = street_length st in
      case intersections_map v (end_node st) of
        Some isec \<Rightarrow>
          if \<not> can_vehicle_enter isec (street_id st) (lane_index v) then
            Inr (v\<lparr>speed := 0, position_s := new_pos\<rparr>)
          else
            let v' = v\<lparr>route_index := route_index v + 1\<rparr> in
            if route_index v' \<ge> length (route_streets v') then Inr (v'\<lparr>done_flag := True\<rparr>)
            else
              let next_st_id = route_streets v' ! route_index v' in
              (case streets_map v' next_st_id of
                 None \<Rightarrow> Inl (KeyError, v')
               | Some next_st \<Rightarrow>
                   let lane = min (lane_index v') (num_lanes next_st - 1) in
                   Inr (v'\<lparr>current_street := Some next_st, lane_index := lane,
                          position_s := 0, speed := 0,
                          base_speed_limit := speed_limit next_st * speed_factor v'\<rparr>))
      | None \<Rightarrow> Inr (v\<lparr>done_flag := True\<rparr>))"

text \<open>
  \<open>update\<close>. \<open>Inr\<close> is the vehicle after a normal return, \<open>Inl\<close> an exception together
  with the vehicle as the exception leaves it.
\<close>

definition update :: "real \<Rightarrow> vehicle option \<Rightarrow> vehicle \<Rightarrow> (error \<times> vehicle) + vehicle" where
  "update dt leader v =
     (if done_flag v then Inr v
      else
        case current_street v of
          None \<Rightarrow> Inl (AttributeError, v)
        | Some st \<Rightarrow>
            let dist_to_end = street_length st - position_s v;
                desired_accel = collision_accel leader v
            in
            (case next_turn_direction v of
               Inl e \<Rightarrow> Inl (e, v)
             | Inr turn_dir \<Rightarrow>
                 (case lane_change turn_dir dist_to_end st v of
                    Inl e \<Rightarrow> Inl (e, v)
                  | Inr lane \<Rightarrow>
                      let v1 = v\<lparr>lane_index := lane\<rparr>;
                          desired_accel = signal_accel desired_accel dist_to_end st lane v1;
                          new_speed = new_speed dt desired_accel st v1;
                          new_pos = position_s v1 + new_speed * dt
                      in if new_pos \<ge> street_length st then street_end st v1
                         else Inr (v1\<lparr>speed := new_speed, position_s := new_pos\<rparr>))))"

text \<open>The vehicle after a call, whether the call returned or raised.\<close>

definition state_after :: "(error \<times> vehicle) + vehicle \<Rightarrow> vehicle" where
  "state_after r = (case r of Inl (e, v) \<Rightarrow> v | Inr v \<Rightarrow> v)"

text \<open>
  The bounds of the data model: the vehicle is on a street, its position lies on that
  street and its speed is not negative. The cached base speed limit is up to date when
  it is the limit of the current street times the speed factor.
\<close>

definition bounds_ok :: "vehicle \<Rightarrow> bool" where
  "bounds_ok v =
     (case current_street v of
        None \<Rightarrow> False
      | Some st \<Rightarrow> 0 \<le> position_s v \<and> position_s v \<le> street_length st \<and> 0 \<le> speed v)"

definition cache_ok :: "vehicle \<Rightarrow> bool" where
  "cache_ok v =
     (case current_street v of
        None \<Rightarrow> False
      | Some st \<Rightarrow> base_speed_limit v = speed_limit st * speed_factor v)"

subsection \<open>The turn classification as the specification words it\<close>

text \<open>
  The two headings that \<open>_next_turn_direction\<close> compares: \<open>None\<close> when the route has no
  street beyond the current one, otherwise the \<open>atan2\<close> headings of the last edge of the
  current street and of the first edge of the next street.
\<close>

definition turn_headings :: "vehicle \<Rightarrow> error + (real \<times> real) option" where
  "turn_headings v =
     (if int (route_index v) \<ge> int (length (route_streets v)) - 1 then Inr None
      else
        case streets_map v (route_streets v ! (route_index v + 1)) of
          None \<Rightarrow> Inl KeyError
        | Some next_st \<Rightarrow>
            (case current_street v of
               None \<Rightarrow> Inl AttributeError
             | Some cst \<Rightarrow>
                 let ccoords = coords cst; ncoords = coords next_st in
                 if length ccoords < 2 \<or> length ncoords < 2 then Inl IndexError
                 else
                   Inr (Some
                     (atan2 (snd (ccoords ! (length ccoords - 1)) - snd (ccoords ! (length ccoords - 2)))
                            (fst (ccoords ! (length ccoords - 1)) - fst (ccoords ! (length ccoords - 2))),
                      atan2 (snd (ncoords ! 1) - snd (ncoords ! 0))
                            (fst (ncoords ! 1) - fst (ncoords ! 0))))))"

text \<open>
  The end of \<open>_next_turn_direction\<close>: the difference in degrees is brought back by 360
  when it is above 180 or below -180, and compared with 30 and -30.
\<close>

definition turn_of_diff :: "real \<Rightarrow> string" where
  "turn_of_diff diff =
     (let diff = (if diff > 180 then diff - 360
                  else if diff < - 180 then diff + 360
                  else diff)
      in if diff > 30 then ''right''
         else if diff < - 30 then ''left''
         else ''through'')"

text \<open>
  The specification normalises the signed difference into \<open>(-180, 180]\<close>: the one value
  in that interval that differs from it by a multiple of 360.
\<close>

definition normalize_spec :: "real \<Rightarrow> real" where
  "normalize_spec d = d - 360 * of_int \<lceil>(d - 180) / 360\<rceil>"

definition classify_spec :: "real \<Rightarrow> string" where
  "classify_spec d =
     (if normalize_spec d > 30 then ''right''
      else if normalize_spec d < - 30 then ''left''
      else ''through'')"

definition next_turn_direction_spec :: "vehicle \<Rightarrow> error + string option" where
  "next_turn_direction_spec v =
     (case turn_headings v of
        Inl e \<Rightarrow> Inl e
      | Inr None \<Rightarrow> Inr None
      | Inr (Some (a1, a2)) \<Rightarrow> Inr (Some (classify_spec (degrees (a2 - a1)))))"

section \<open>The fleet initializer\<close>

text \<open>
  \<open>Simulator._create_vehicles\<close>. The state of the loop is the remaining
  \<open>vehicle_count\<close>, the state of the city layout (changed by \<open>create_vehicle\<close>) and the
  position in the stream of random numbers that the seed fixes; \<open>placed\<close> is not a
  variable of the program: it adds up the accepted batches. \<open>random.choice\<close> and
  \<open>random.randint\<close> each take one number of the stream, \<open>random.choice\<close> of an empty list
  raises IndexError. \<open>create_vehicle\<close> is the capacity policy of the streets, which the
  city layout owns. A run that never leaves the loop has the value \<open>None\<close>.
\<close>

record 'n simulator =
  vehicle_count :: int
  city_layout :: 'n
  draws :: nat
  placed :: int

partial_function (option) create_vehicles ::
  "('n \<Rightarrow> 's \<Rightarrow> int \<Rightarrow> bool \<times> 'n) \<Rightarrow> 's list \<Rightarrow> (nat \<Rightarrow> nat) \<Rightarrow> 'n simulator \<Rightarrow>
   ((error \<times> 'n simulator) + 'n simulator) option" where
  "create_vehicles create_vehicle streets rnd sim =
     (if vehicle_count sim > 0 then
        (if streets = [] then Some (Inl (IndexError, sim))
         else
           let street = streets ! (rnd (draws sim) mod length streets);
               count = 1 + int (rnd (draws sim + 1) mod nat (vehicle_count sim));
               res = create_vehicle (city_layout sim) street count;
               sim' = sim\<lparr>city_layout := snd res, draws := draws sim + 2\<rparr>
           in if fst res then
                create_vehicles create_vehicle streets rnd
                  (sim'\<lparr>vehicle_count := vehicle_count sim - count, placed := placed sim + count\<rparr>)
              else create_vehicles create_vehicle streets rnd sim')
      else Some (Inr sim))"

text \<open>
  A capacity policy for the streets: street \<open>st\<close> has \<open>free st\<close> places left and accepts a
  batch that fits. A network with five places on every street, one with two places on
  every street, and a fleet of \<open>n\<close> vehicles to place on a network.
\<close>

definition capacity_policy :: "(nat \<Rightarrow> int) \<Rightarrow> nat \<Rightarrow> int \<Rightarrow> bool \<times> (nat \<Rightarrow> int)" where
  "capacity_policy free st count =
     (if count \<le> free st then (True, free(st := free st - count)) else (False, free))"

definition five_each :: "nat \<Rightarrow> int" where
  "five_each st = 5"

definition two_each :: "nat \<Rightarrow> int" where
  "two_each st = 2"

definition fleet :: "(nat \<Rightarrow> int) \<Rightarrow> int \<Rightarrow> (nat \<Rightarrow> int) simulator" where
  "fleet free n = \<lparr> vehicle_count = n, city_layout = free, draws = 0, placed = 0 \<rparr>"

section \<open>A small network\<close>

text \<open>
  Street 1 runs 30 units east and has two lanes, the right one for going through or
  right, the left one for turning left; street 2 starts where street 1 ends, runs 50
  units south and has \<open>n\<close> lanes. The intersection between them admits everybody or
  nobody; street 2 ends at the border of the network.
\<close>

definition street1 :: street where
  "street1 = \<lparr> street_id = 1, coords = [(0, 0), (30, 0)], street_length = 30, num_lanes = 2,
               speed_limit = 10, lane_dirs = [[''through'', ''right''], [''left'']],
               end_node = ''N1'' \<rparr>"

definition street2 :: "int \<Rightarrow> street" where
  "street2 n = \<lparr> street_id = 2, coords = [(30, 0), (30, - 50)], street_length = 50,
                 num_lanes = n, speed_limit = 10,
                 lane_dirs = [[''through'', ''left'', ''right''], [''through'']],
                 end_node = ''N2'' \<rparr>"

definition gate :: "bool \<Rightarrow> intersection" where
  "gate b = \<lparr> can_vehicle_enter = (\<lambda>sid lane. b) \<rparr>"

text \<open>A normal driver, as \<open>Vehicle.__init__\<close> builds it on street \<open>st\<close>.\<close>

definition car :: "street \<Rightarrow> int \<Rightarrow> int list \<Rightarrow> int \<Rightarrow> bool \<Rightarrow> vehicle" where
  "car st lane route n b =
     \<lparr> vehicle_id = 1, profile = ''normal'', speed_factor = 1, reaction_time = 1,
       current_street = Some st, lane_index = lane, position_s = 0,
       route_streets = route, route_index = 0,
       streets_map = [1 \<mapsto> street1, 2 \<mapsto> street2 n],
       intersections_map = [''N1'' \<mapsto> gate b], speed = 0, max_accel = 2, max_decel = 4,
       base_speed_limit = speed_limit st * 1, done_flag = False \<rparr>"

text \<open>
  A car on street 1 at speed 8, and a car 12 units ahead of it in the same lane.
\<close>

definition car_following :: vehicle where
  "car_following = (car street1 0 [1, 2] 2 True)\<lparr>speed := 8\<rparr>"

definition car_ahead :: vehicle where
  "car_ahead = (car street1 0 [1] 2 True)\<lparr>position_s := 12\<rparr>"

text \<open>A street running west and a street running east from the same point: a reversal.\<close>

definition street_west :: street where
  "street_west = \<lparr> street_id = 1, coords = [(0, 0), (- 1, 0)], street_length = 1, num_lanes = 1,
                   speed_limit = 10, lane_dirs = [[''through'']], end_node = ''N1'' \<rparr>"

definition street_east :: street where
  "street_east = \<lparr> street_id = 2, coords = [(- 1, 0), (0, 0)], street_length = 1, num_lanes = 1,
                   speed_limit = 10, lane_dirs = [[''through'']], end_node = ''N2'' \<rparr>"

definition car_reversing :: vehicle where
  "car_reversing =
     \<lparr> vehicle_id = 1, profile = ''normal'', speed_factor = 1, reaction_time = 1,
       current_street = Some street_west, lane_index = 0, position_s = 0,
       route_streets = [1, 2], route_index = 0,
       streets_map = [1 \<mapsto> street_west, 2 \<mapsto> street_east],
       intersections_map = Map.empty, speed = 0, max_accel = 2, max_decel = 4,
       base_speed_limit = 10, done_flag = False \<rparr>"

section \<open>The steps of \<open>update\<close>\<close>

lemma state_after_simps:
  "state_after (Inr v) = v" "state_after (Inl (e, v)) = v"
  by (simp_all add: state_after_def)

lemma new_speed_nonneg: "0 \<le> new_speed dt a st v"
  by (simp add: new_speed_def Let_def)

lemma update_done: "done_flag v \<Longrightarrow> update dt leader v = Inr v"
  by (simp add: update_def)

lemma update_no_street:
  "\<not> done_flag v \<Longrightarrow> current_street v = None \<Longrightarrow> update dt leader v = Inl (AttributeError, v)"
  by (simp add: update_def)

lemma update_turn_raises:
  "\<not> done_flag v \<Longrightarrow> current_street v = Some st \<Longrightarrow> next_turn_direction v = Inl e \<Longrightarrow>
   update dt leader v = Inl (e, v)"
  by (simp add: update_def)

lemma update_lane_raises:
  "\<not> done_flag v \<Longrightarrow> current_street v = Some st \<Longrightarrow> next_turn_direction v = Inr td \<Longrightarrow>
   lane_change td (street_length st - position_s v) st v = Inl e \<Longrightarrow>
   update dt leader v = Inl (e, v)"
  by (simp add: update_def)

lemma update_moves:
  assumes "\<not> done_flag v" "current_street v = Some st" "next_turn_direction v = Inr td"
    "lane_change td (street_length st - position_s v) st v = Inr lane"
  shows "update dt leader v =
    (let v1 = v\<lparr>lane_index := lane\<rparr>;
         a = signal_accel (collision_accel leader v) (street_length st - position_s v) st lane v1;
         ns = new_speed dt a st v1
     in if position_s v + ns * dt \<ge> street_length st then street_end st v1
        else Inr (v1\<lparr>speed := ns, position_s := position_s v + ns * dt\<rparr>))"
  using assms by (simp add: update_def Let_def)

lemma lane_change_allowed:
  "lane_allows_turn st (lane_index v) t = Inr True \<Longrightarrow> lane_change (Some t) d st v = Inr (lane_index v)"
  by (simp add: lane_change_def)

lemma lane_change_none: "lane_change None d st v = Inr (lane_index v)"
  by (simp add: lane_change_def)

lemma next_turn_pending:
  "next_turn_direction v = Inr (Some t) \<Longrightarrow>
   route_index v + 1 < length (route_streets v) \<and>
   (\<exists>next_st. streets_map v (route_streets v ! (route_index v + 1)) = Some next_st)"
  by (auto simp: next_turn_direction_def Let_def split: if_splits option.splits)

lemma street_end_cases:
  assumes "route_index v + 1 < length (route_streets v)"
    "streets_map v (route_streets v ! (route_index v + 1)) = Some next_st"
  shows "street_end st v = Inr (v\<lparr>speed := 0, position_s := street_length st\<rparr>) \<or>
         street_end st v = Inr (v\<lparr>done_flag := True\<rparr>) \<or>
         street_end st v = Inr (v\<lparr>route_index := route_index v + 1,
                  current_street := Some next_st, lane_index := min (lane_index v) (num_lanes next_st - 1),
                  position_s := 0, speed := 0,
                  base_speed_limit := speed_limit next_st * speed_factor v\<rparr>)"
  using assms by (simp add: street_end_def Let_def split: option.splits)

lemma signal_accel_brake:
  "max_decel w = max_decel v \<Longrightarrow> signal_accel (- max_decel v) d st lane w = - max_decel v"
  by (simp add: signal_accel_def split: option.splits)

lemma new_speed_brake:
  assumes "0 \<le> speed v" "0 \<le> m" "0 < dt"
  shows "new_speed dt (- m) st v \<le> speed v"
proof -
  have "0 \<le> m * dt" using assms by simp
  then have "speed v + (- m) * dt \<le> speed v" by simp
  then show ?thesis using assms(1) by (simp add: new_speed_def Let_def min_le_iff_disj)
qed

lemma street_end_speed:
  "0 \<le> speed v \<Longrightarrow> speed (state_after (street_end st v)) \<le> speed v"
  by (auto simp: street_end_def Let_def state_after_def split: option.splits)

lemma collision_accel_brake:
  assumes "current_street_id l = current_street_id v" "lane_index l = lane_index v"
    "position_s l - position_s v - 5 < speed v * reaction_time v"
  shows "collision_accel (Some l) v = - max_decel v"
  using assms by (simp add: collision_accel_def Let_def)

lemma street_end_cache:
  assumes "speed_factor v = f"
  shows "current_street v = Some st \<Longrightarrow> base_speed_limit v = speed_limit st * f \<Longrightarrow>
   cache_ok (state_after (street_end st v))"
  using assms by (auto simp: street_end_def Let_def state_after_def cache_ok_def split: option.splits)

lemma update_cache:
  assumes "cache_ok v"
  shows "cache_ok (state_after (update dt leader v))"
proof (cases "done_flag v")
  case True
  with assms show ?thesis by (simp add: update_done state_after_simps)
next
  case False
  from assms obtain st where st: "current_street v = Some st"
    and b: "base_speed_limit v = speed_limit st * speed_factor v"
    by (auto simp: cache_ok_def split: option.splits)
  show ?thesis
  proof (cases "next_turn_direction v")
    case (Inl e)
    with False st assms show ?thesis by (simp add: update_turn_raises state_after_simps)
  next
    case (Inr td)
    show ?thesis
    proof (cases "lane_change td (street_length st - position_s v) st v")
      case (Inl e)
      with False st Inr assms show ?thesis by (simp add: update_lane_raises state_after_simps)
    next
      case lc: (Inr lane)
      have se: "cache_ok (state_after (street_end st (v\<lparr>lane_index := lane\<rparr>)))"
        using st b by (intro street_end_cache [where f = "speed_factor v"]) simp_all
      show ?thesis
        unfolding update_moves [OF False st Inr lc]
        using se st b by (simp add: Let_def state_after_simps cache_ok_def)
    qed
  qed
qed

lemma street_end_bounds:
  assumes "current_street v = Some st" "0 \<le> position_s v" "position_s v \<le> street_length st"
    "0 \<le> speed v" "\<forall>i s. streets_map v i = Some s \<longrightarrow> 0 \<le> street_length s"
  shows "bounds_ok (state_after (street_end st v))"
  using assms
  by (auto simp: street_end_def Let_def bounds_ok_def state_after_def split: option.splits)

section \<open>The small network, evaluated\<close>

lemmas network_defs = car_def street1_def street2_def gate_def
lemmas step_defs = update_def next_turn_direction_def lane_change_def lane_allows_turn_def
  signal_accel_def collision_accel_def new_speed_def final_limit_def street_end_def
  current_street_id_def atan2_def degrees_def Let_def

lemma car_fields:
  "done_flag (car st lane route n b) = False"
  "current_street (car st lane route n b) = Some st"
  "position_s (car st lane route n b) = 0"
  "speed (car st lane route n b) = 0"
  "lane_index (car st lane route n b) = lane"
  "route_index (car st lane route n b) = 0"
  "route_streets (car st lane route n b) = route"
  "intersections_map (car st lane route n b) ''N1'' = Some (gate b)"
  "intersections_map (car st lane route n b) ''N2'' = None"
  "streets_map (car st lane route n b) 2 = Some (street2 n)"
  by (simp_all add: car_def)

lemma car_turns_left: "next_turn_direction (car street1 lane [1, 2] n b) = Inr (Some ''left'')"
  by (simp add: network_defs step_defs)

lemma car_no_turn: "next_turn_direction (car st lane [2] n b) = Inr None"
  by (simp add: car_def next_turn_direction_def)

lemma car_lane_change: "lane_change (Some ''left'') 30 street1 (car street1 0 route n b) = Inr 1"
  by (simp add: network_defs lane_change_def lane_allows_turn_def)

lemma car_lane_kept: "lane_allows_turn street1 1 ''left'' = Inr True"
  by (simp add: street1_def lane_allows_turn_def)

lemma car_accel:
  "signal_accel (collision_accel None (car street1 0 route n b)) 30 street1 1
     ((car street1 0 route n b)\<lparr>lane_index := 1\<rparr>) = 2"
  by (simp add: car_def signal_accel_def collision_accel_def)

lemma car_new_speed:
  "new_speed 5 2 street1 ((car street1 0 route n b)\<lparr>lane_index := 1\<rparr>) = 10"
  "new_speed 1 2 street1 ((car street1 0 route n b)\<lparr>lane_index := 1\<rparr>) = 2"
  by (simp_all add: network_defs new_speed_def final_limit_def)

lemma street_fields:
  "street_length street1 = 30" "end_node street1 = ''N1''" "street_id street1 = 1"
  "street_length (street2 n) = 50" "end_node (street2 n) = ''N2''" "num_lanes (street2 n) = n"
  "speed_limit (street2 n) = 10"
  by (simp_all add: street1_def street2_def)

lemma gate_enter: "can_vehicle_enter (gate b) sid lane = b"
  by (simp add: gate_def)

section \<open>Properties of \<open>update\<close>\<close>

text \<open>
  C1. A vehicle that is on a street, with its position between 0 and the length of that
  street and a speed that is not negative, is so again after \<open>update\<close> with a positive
  \<open>dt\<close> and any leader, on the street it then is on, whether the call returns or raises.
  The streets of the network have lengths that are not negative.
\<close>

theorem update_preserves_bounds:
  assumes "bounds_ok v" "0 < dt" "\<forall>i s. streets_map v i = Some s \<longrightarrow> 0 \<le> street_length s"
  shows "bounds_ok (state_after (update dt leader v))"
proof (cases "done_flag v")
  case True
  with assms show ?thesis by (simp add: update_done state_after_simps)
next
  case False
  from assms(1) obtain st where st: "current_street v = Some st"
    and b: "0 \<le> position_s v" "position_s v \<le> street_length st" "0 \<le> speed v"
    by (auto simp: bounds_ok_def split: option.splits)
  show ?thesis
  proof (cases "next_turn_direction v")
    case (Inl e)
    with False st assms show ?thesis by (simp add: update_turn_raises state_after_simps)
  next
    case (Inr td)
    show ?thesis
    proof (cases "lane_change td (street_length st - position_s v) st v")
      case (Inl e)
      with False st Inr assms show ?thesis by (simp add: update_lane_raises state_after_simps)
    next
      case lc: (Inr lane)
      let ?v1 = "v\<lparr>lane_index := lane\<rparr>"
      let ?ns = "new_speed dt (signal_accel (collision_accel leader v)
                   (street_length st - position_s v) st lane ?v1) st ?v1"
      have ns: "0 \<le> ?ns" by (rule new_speed_nonneg)
      then have nsdt: "0 \<le> ?ns * dt" using assms(2) by simp
      have se: "bounds_ok (state_after (street_end st ?v1))"
        using st b assms(3) by (intro street_end_bounds) simp_all
      show ?thesis
        unfolding update_moves [OF False st Inr lc]
        using se ns nsdt st b by (simp add: Let_def state_after_simps bounds_ok_def)
    qed
  qed
qed

theorem update_preserves_bounds_witness:
  "bounds_ok (car street1 0 [1, 2] 2 True) \<and> (0::real) < 5 \<and>
   bounds_ok (state_after (update 5 None (car street1 0 [1, 2] 2 True)))"
proof -
  let ?v = "car street1 0 [1, 2] 2 True"
  have h1: "bounds_ok ?v" by (simp add: network_defs bounds_ok_def)
  have h2: "(0::real) < 5" by simp
  have h3: "\<forall>i s. streets_map ?v i = Some s \<longrightarrow> 0 \<le> street_length s"
    by (simp add: network_defs)
  note c = update_preserves_bounds [OF h1 h2 h3, of None]
  show ?thesis by (intro conjI h1 h2 c)
qed

text \<open>
  C2, as amended. When the new position reaches the end of the street and the end
  intersection refuses the lane the vehicle has after the lane change of this tick, the
  vehicle stays on its street with speed 0, at the end of the street (not at the position
  it had before the tick) and in the lane after the lane change; nothing else changes.
\<close>

theorem update_denied_at_end:
  assumes "\<not> done_flag v" "current_street v = Some st"
    "next_turn_direction v = Inr td"
    "lane_change td (street_length st - position_s v) st v = Inr lane"
    "a = signal_accel (collision_accel leader v) (street_length st - position_s v) st lane
           (v\<lparr>lane_index := lane\<rparr>)"
    "ns = new_speed dt a st (v\<lparr>lane_index := lane\<rparr>)"
    "position_s v + ns * dt \<ge> street_length st"
    "intersections_map v (end_node st) = Some isec"
    "\<not> can_vehicle_enter isec (street_id st) lane"
  shows "update dt leader v =
           Inr (v\<lparr>lane_index := lane, speed := 0, position_s := street_length st\<rparr>)"
  using assms by (simp add: update_moves Let_def street_end_def)

theorem update_denied_at_end_witness:
  "\<not> done_flag (car street1 0 [1, 2] 2 False) \<and>
   current_street (car street1 0 [1, 2] 2 False) = Some street1 \<and>
   next_turn_direction (car street1 0 [1, 2] 2 False) = Inr (Some ''left'') \<and>
   lane_change (Some ''left'') (street_length street1 - position_s (car street1 0 [1, 2] 2 False))
     street1 (car street1 0 [1, 2] 2 False) = Inr 1 \<and>
   position_s (car street1 0 [1, 2] 2 False) + 10 * 5 \<ge> street_length street1 \<and>
   intersections_map (car street1 0 [1, 2] 2 False) (end_node street1) = Some (gate False) \<and>
   \<not> can_vehicle_enter (gate False) (street_id street1) 1 \<and>
   update 5 None (car street1 0 [1, 2] 2 False) =
     Inr ((car street1 0 [1, 2] 2 False)\<lparr>lane_index := 1, speed := 0,
            position_s := street_length street1\<rparr>)"
proof -
  let ?v = "car street1 0 [1, 2] 2 False"
  have h1: "\<not> done_flag ?v" and h2: "current_street ?v = Some street1"
    by (simp_all add: car_fields)
  have h3: "next_turn_direction ?v = Inr (Some ''left'')" by (rule car_turns_left)
  have h4: "lane_change (Some ''left'') (street_length street1 - position_s ?v) street1 ?v = Inr 1"
    by (simp add: car_fields street_fields car_lane_change)
  have h5: "2 = signal_accel (collision_accel None ?v) (street_length street1 - position_s ?v)
                  street1 1 (?v\<lparr>lane_index := 1\<rparr>)"
    by (simp add: car_fields street_fields car_accel)
  have h6: "10 = new_speed 5 2 street1 (?v\<lparr>lane_index := 1\<rparr>)" by (simp add: car_new_speed)
  have h7: "position_s ?v + 10 * 5 \<ge> street_length street1"
    by (simp add: car_fields street_fields)
  have h8: "intersections_map ?v (end_node street1) = Some (gate False)"
    by (simp add: car_fields street_fields)
  have h9: "\<not> can_vehicle_enter (gate False) (street_id street1) 1" by (simp add: gate_enter)
  note c = update_denied_at_end [OF h1 h2 h3 h4 h5 h6 h7 h8 h9]
  show ?thesis by (intro conjI h1 h2 h3 h4 h7 h8 h9 c)
qed

text \<open>
  C2 as stated fails: a car at position 0 in lane 0 of street 1, with the left turn into
  street 2 ahead and the intersection closed, is after a tick of 5 at position 30 and in
  lane 1.
\<close>

theorem update_denied_at_end_counterexample:
  "\<not> done_flag (car street1 0 [1, 2] 2 False) \<and>
   intersections_map (car street1 0 [1, 2] 2 False) (end_node street1) = Some (gate False) \<and>
   \<not> can_vehicle_enter (gate False) (street_id street1) 0 \<and>
   \<not> can_vehicle_enter (gate False) (street_id street1) 1 \<and>
   update 5 None (car street1 0 [1, 2] 2 False) =
     Inr ((car street1 0 [1, 2] 2 False)\<lparr>lane_index := 1, position_s := 30\<rparr>) \<and>
   position_s (state_after (update 5 None (car street1 0 [1, 2] 2 False))) \<noteq>
     position_s (car street1 0 [1, 2] 2 False) \<and>
   lane_index (state_after (update 5 None (car street1 0 [1, 2] 2 False))) \<noteq>
     lane_index (car street1 0 [1, 2] 2 False)"
  by (simp add: network_defs step_defs state_after_def)

text \<open>
  C3, as amended. When the new position reaches the end of the street, the end
  intersection admits the lane the vehicle has after the lane change of this tick and
  the route goes on, the vehicle enters the next street of the route at position 0 with
  speed 0, in lane \<open>min lane (num_lanes next_st - 1)\<close> for the lane after the lane change
  of this tick, with the route index advanced by one and the base speed limit that of the
  next street times the speed factor.
\<close>

theorem update_enters_next_street:
  assumes "\<not> done_flag v" "current_street v = Some st"
    "next_turn_direction v = Inr td"
    "lane_change td (street_length st - position_s v) st v = Inr lane"
    "a = signal_accel (collision_accel leader v) (street_length st - position_s v) st lane
           (v\<lparr>lane_index := lane\<rparr>)"
    "ns = new_speed dt a st (v\<lparr>lane_index := lane\<rparr>)"
    "position_s v + ns * dt \<ge> street_length st"
    "intersections_map v (end_node st) = Some isec"
    "can_vehicle_enter isec (street_id st) lane"
    "route_index v + 1 < length (route_streets v)"
    "streets_map v (route_streets v ! (route_index v + 1)) = Some next_st"
  shows "update dt leader v =
           Inr (v\<lparr>lane_index := min lane (num_lanes next_st - 1),
                  route_index := route_index v + 1,
                  current_street := Some next_st, position_s := 0, speed := 0,
                  base_speed_limit := speed_limit next_st * speed_factor v\<rparr>)"
  using assms by (simp add: update_moves Let_def street_end_def)

theorem update_enters_next_street_witness:
  "\<not> done_flag (car street1 0 [1, 2] 2 True) \<and>
   current_street (car street1 0 [1, 2] 2 True) = Some street1 \<and>
   next_turn_direction (car street1 0 [1, 2] 2 True) = Inr (Some ''left'') \<and>
   lane_change (Some ''left'') (street_length street1 - position_s (car street1 0 [1, 2] 2 True))
     street1 (car street1 0 [1, 2] 2 True) = Inr 1 \<and>
   position_s (car street1 0 [1, 2] 2 True) + 10 * 5 \<ge> street_length street1 \<and>
   intersections_map (car street1 0 [1, 2] 2 True) (end_node street1) = Some (gate True) \<and>
   can_vehicle_enter (gate True) (street_id street1) 1 \<and>
   route_index (car street1 0 [1, 2] 2 True) + 1 < length (route_streets (car street1 0 [1, 2] 2 True)) \<and>
   update 5 None (car street1 0 [1, 2] 2 True) =
     Inr ((car street1 0 [1, 2] 2 True)\<lparr>lane_index := min 1 (num_lanes (street2 2) - 1),
            route_index := route_index (car street1 0 [1, 2] 2 True) + 1,
            current_street := Some (street2 2), position_s := 0, speed := 0,
            base_speed_limit := speed_limit (street2 2) * speed_factor (car street1 0 [1, 2] 2 True)\<rparr>)"
proof -
  let ?v = "car street1 0 [1, 2] 2 True"
  have h1: "\<not> done_flag ?v" and h2: "current_street ?v = Some street1"
    by (simp_all add: car_fields)
  have h3: "next_turn_direction ?v = Inr (Some ''left'')" by (rule car_turns_left)
  have h4: "lane_change (Some ''left'') (street_length street1 - position_s ?v) street1 ?v = Inr 1"
    by (simp add: car_fields street_fields car_lane_change)
  have h5: "2 = signal_accel (collision_accel None ?v) (street_length street1 - position_s ?v)
                  street1 1 (?v\<lparr>lane_index := 1\<rparr>)"
    by (simp add: car_fields street_fields car_accel)
  have h6: "10 = new_speed 5 2 street1 (?v\<lparr>lane_index := 1\<rparr>)" by (simp add: car_new_speed)
  have h7: "position_s ?v + 10 * 5 \<ge> street_length street1"
    by (simp add: car_fields street_fields)
  have h8: "intersections_map ?v (end_node street1) = Some (gate True)"
    by (simp add: car_fields street_fields)
  have h9: "can_vehicle_enter (gate True) (street_id street1) 1" by (simp add: gate_enter)
  have h10: "route_index ?v + 1 < length (route_streets ?v)" by (simp add: car_fields)
  have h11: "streets_map ?v (route_streets ?v ! (route_index ?v + 1)) = Some (street2 2)"
    by (simp add: car_fields)
  note c = update_enters_next_street [OF h1 h2 h3 h4 h5 h6 h7 h8 h9 h10 h11]
  show ?thesis by (intro conjI h1 h2 h3 h4 h7 h8 h9 h10 c)
qed

text \<open>
  C3 as stated, with the lane index before the tick, fails: the car in lane 0 of street 1
  changes to lane 1 for its left turn and enters street 2, which has two lanes, in the
  same tick; it arrives in lane 1, not in lane \<open>min 0 (2 - 1) = 0\<close>.
\<close>

theorem update_enters_next_street_counterexample:
  "\<not> done_flag (car street1 0 [1, 2] 2 True) \<and>
   intersections_map (car street1 0 [1, 2] 2 True) (end_node street1) = Some (gate True) \<and>
   can_vehicle_enter (gate True) (street_id street1) 0 \<and>
   can_vehicle_enter (gate True) (street_id street1) 1 \<and>
   streets_map (car street1 0 [1, 2] 2 True) (route_streets (car street1 0 [1, 2] 2 True) ! 1)
     = Some (street2 2) \<and>
   update 5 None (car street1 0 [1, 2] 2 True) =
     Inr ((car street1 0 [1, 2] 2 True)\<lparr>lane_index := 1, route_index := 1,
            current_street := Some (street2 2)\<rparr>) \<and>
   lane_index (state_after (update 5 None (car street1 0 [1, 2] 2 True))) \<noteq>
     min (lane_index (car street1 0 [1, 2] 2 True)) (num_lanes (street2 2) - 1)"
  by (simp add: network_defs step_defs state_after_def)

text \<open>
  C4, as amended. When the new position stays strictly below the length of the street,
  \<open>update\<close> stores the new speed and the new position (and the lane after the lane
  change); the street, the route index, the cached base speed limit and the done flag
  stay as they are.
\<close>

theorem update_commits_before_end:
  assumes "\<not> done_flag v" "current_street v = Some st" "0 < dt"
    "next_turn_direction v = Inr td"
    "lane_change td (street_length st - position_s v) st v = Inr lane"
    "a = signal_accel (collision_accel leader v) (street_length st - position_s v) st lane
           (v\<lparr>lane_index := lane\<rparr>)"
    "ns = new_speed dt a st (v\<lparr>lane_index := lane\<rparr>)"
    "position_s v + ns * dt < street_length st"
  shows "update dt leader v =
           Inr (v\<lparr>lane_index := lane, speed := ns, position_s := position_s v + ns * dt\<rparr>)"
  using assms by (simp add: update_moves Let_def)

theorem update_commits_before_end_witness:
  "\<not> done_flag (car street1 0 [1, 2] 2 True) \<and>
   current_street (car street1 0 [1, 2] 2 True) = Some street1 \<and> (0::real) < 1 \<and>
   next_turn_direction (car street1 0 [1, 2] 2 True) = Inr (Some ''left'') \<and>
   lane_change (Some ''left'') (street_length street1 - position_s (car street1 0 [1, 2] 2 True))
     street1 (car street1 0 [1, 2] 2 True) = Inr 1 \<and>
   position_s (car street1 0 [1, 2] 2 True) + 2 * 1 < street_length street1 \<and>
   update 1 None (car street1 0 [1, 2] 2 True) =
     Inr ((car street1 0 [1, 2] 2 True)\<lparr>lane_index := 1, speed := 2,
            position_s := position_s (car street1 0 [1, 2] 2 True) + 2 * 1\<rparr>)"
proof -
  let ?v = "car street1 0 [1, 2] 2 True"
  have h1: "\<not> done_flag ?v" and h2: "current_street ?v = Some street1"
    by (simp_all add: car_fields)
  have h0: "(0::real) < 1" by simp
  have h3: "next_turn_direction ?v = Inr (Some ''left'')" by (rule car_turns_left)
  have h4: "lane_change (Some ''left'') (street_length street1 - position_s ?v) street1 ?v = Inr 1"
    by (simp add: car_fields street_fields car_lane_change)
  have h5: "2 = signal_accel (collision_accel None ?v) (street_length street1 - position_s ?v)
                  street1 1 (?v\<lparr>lane_index := 1\<rparr>)"
    by (simp add: car_fields street_fields car_accel)
  have h6: "2 = new_speed 1 2 street1 (?v\<lparr>lane_index := 1\<rparr>)" by (simp add: car_new_speed)
  have h7: "position_s ?v + 2 * 1 < street_length street1"
    by (simp add: car_fields street_fields)
  note c = update_commits_before_end [OF h1 h2 h0 h3 h4 h5 h6 h7]
  show ?thesis by (intro conjI h1 h2 h0 h3 h4 h7 c)
qed

text \<open>
  C4 as stated fails where the new position equals the length of the street: on street
  2 (length 50, no intersection at its end) a tick of 5 gives the speed 10 and the
  position 50, which does not exceed the length; \<open>update\<close> marks the car done and stores
  neither.
\<close>

theorem update_commits_before_end_counterexample:
  "\<not> done_flag (car (street2 1) 0 [2] 1 True) \<and>
   next_turn_direction (car (street2 1) 0 [2] 1 True) = Inr None \<and>
   new_speed 5 (signal_accel (collision_accel None (car (street2 1) 0 [2] 1 True))
       (street_length (street2 1) - position_s (car (street2 1) 0 [2] 1 True)) (street2 1) 0
       (car (street2 1) 0 [2] 1 True)) (street2 1) (car (street2 1) 0 [2] 1 True) = 10 \<and>
   position_s (car (street2 1) 0 [2] 1 True) + 10 * 5 \<le> street_length (street2 1) \<and>
   update 5 None (car (street2 1) 0 [2] 1 True) =
     Inr ((car (street2 1) 0 [2] 1 True)\<lparr>done_flag := True\<rparr>) \<and>
   done_flag (state_after (update 5 None (car (street2 1) 0 [2] 1 True))) \<and>
   speed (state_after (update 5 None (car (street2 1) 0 [2] 1 True))) \<noteq> 10 \<and>
   position_s (state_after (update 5 None (car (street2 1) 0 [2] 1 True))) \<noteq>
     position_s (car (street2 1) 0 [2] 1 True) + 10 * 5"
  by (simp add: network_defs step_defs state_after_def)

lemma new_speed_brake_value:
  "new_speed dt (- m) st (v\<lparr>lane_index := lane\<rparr>)
     = max 0 (min (speed v - m * dt) (final_limit st v))"
  by (simp add: new_speed_def final_limit_def Let_def)

lemma brake_lowers_speed:
  assumes "0 < speed v" "0 < m" "0 < dt"
  shows "max 0 (min (speed v - m * dt) lmt) < speed v"
proof -
  have "0 < m * dt" using assms by simp
  then have "speed v - m * dt < speed v" by simp
  then show ?thesis using assms(1) by (simp add: min_less_iff_disj)
qed

text \<open>
  C5. Behind a leader on the street with the same id and in the same lane, with the gap
  \<open>leader.position - position - 5\<close> below \<open>speed * reaction_time\<close>, the desired
  acceleration is \<open>- max_decel\<close>, and \<open>update\<close> with a positive \<open>dt\<close> works with it: the
  new speed is \<open>speed - max_decel * dt\<close>, kept between 0 and the speed limit, and
  \<open>update\<close> either stores it together with the position it gives or, when that position
  reaches the end of the street, handles the end of the street. On every path, the
  raising ones included, the speed after is at most the speed before; the stored speed
  is strictly lower when the speed and \<open>max_decel\<close> are positive. The speed and
  \<open>max_decel\<close> are not negative.
\<close>

theorem brake_behind_close_leader:
  assumes "\<not> done_flag v" "0 < dt" "0 \<le> speed v" "0 \<le> max_decel v"
    "current_street_id l = current_street_id v" "lane_index l = lane_index v"
    "position_s l - position_s v - 5 < speed v * reaction_time v"
  shows "collision_accel (Some l) v = - max_decel v \<and>
         speed (state_after (update dt (Some l) v)) \<le> speed v \<and>
         (\<forall>st td lane.
            current_street v = Some st \<and> next_turn_direction v = Inr td \<and>
            lane_change td (street_length st - position_s v) st v = Inr lane \<longrightarrow>
            (let ns = max 0 (min (speed v - max_decel v * dt) (final_limit st v)) in
             ns \<le> speed v \<and>
             (0 < speed v \<and> 0 < max_decel v \<longrightarrow> ns < speed v) \<and>
             update dt (Some l) v =
               (if street_length st \<le> position_s v + ns * dt
                then street_end st (v\<lparr>lane_index := lane\<rparr>)
                else Inr (v\<lparr>lane_index := lane, speed := ns,
                            position_s := position_s v + ns * dt\<rparr>))))"
proof -
  have ca: "collision_accel (Some l) v = - max_decel v"
    using assms(5-7) by (rule collision_accel_brake)
  have moves: "update dt (Some l) v =
      (let ns = max 0 (min (speed v - max_decel v * dt) (final_limit st v)) in
       if street_length st \<le> position_s v + ns * dt
       then street_end st (v\<lparr>lane_index := lane\<rparr>)
       else Inr (v\<lparr>lane_index := lane, speed := ns, position_s := position_s v + ns * dt\<rparr>))"
    if st: "current_street v = Some st" and td: "next_turn_direction v = Inr td"
      and lc: "lane_change td (street_length st - position_s v) st v = Inr lane" for st td lane
  proof -
    let ?v1 = "v\<lparr>lane_index := lane\<rparr>"
    have a: "signal_accel (collision_accel (Some l) v) (street_length st - position_s v) st lane ?v1
             = - max_decel v"
      unfolding ca by (rule signal_accel_brake) simp
    show ?thesis
      unfolding update_moves [OF assms(1) st td lc]
      by (simp add: Let_def a new_speed_brake_value)
  qed
  have le: "max 0 (min (speed v - max_decel v * dt) lmt) \<le> speed v" for lmt
  proof -
    have "0 \<le> max_decel v * dt" using assms(2,4) by simp
    then have "speed v - max_decel v * dt \<le> speed v" by simp
    then show ?thesis using assms(3) by (simp add: min_le_iff_disj)
  qed
  have sp: "speed (state_after (update dt (Some l) v)) \<le> speed v"
  proof (cases "current_street v")
    case None
    with assms(1) show ?thesis by (simp add: update_no_street state_after_simps)
  next
    case (Some st)
    show ?thesis
    proof (cases "next_turn_direction v")
      case (Inl e)
      with assms(1) Some show ?thesis by (simp add: update_turn_raises state_after_simps)
    next
      case (Inr td)
      show ?thesis
      proof (cases "lane_change td (street_length st - position_s v) st v")
        case (Inl e)
        with assms(1) Some Inr show ?thesis by (simp add: update_lane_raises state_after_simps)
      next
        case lc: (Inr lane)
        have se: "speed (state_after (street_end st (v\<lparr>lane_index := lane\<rparr>))) \<le> speed v"
          using street_end_speed [of "v\<lparr>lane_index := lane\<rparr>" st] assms(3) by simp
        show ?thesis
          unfolding moves [OF Some Inr lc]
          using se le [of "final_limit st v"] by (simp add: Let_def state_after_simps)
      qed
    qed
  qed
  have strict: "max 0 (min (speed v - max_decel v * dt) lmt) < speed v"
    if "0 < speed v" "0 < max_decel v" for lmt
    using that assms(2) by (intro brake_lowers_speed)
  show ?thesis
  proof (intro conjI allI impI)
    show "collision_accel (Some l) v = - max_decel v" by (rule ca)
    show "speed (state_after (update dt (Some l) v)) \<le> speed v" by (rule sp)
  next
    fix st td lane
    assume h: "current_street v = Some st \<and> next_turn_direction v = Inr td \<and>
            lane_change td (street_length st - position_s v) st v = Inr lane"
    then have h1: "current_street v = Some st" and h2: "next_turn_direction v = Inr td"
      and h3: "lane_change td (street_length st - position_s v) st v = Inr lane"
      by blast+
    have m: "update dt (Some l) v =
      (let ns = max 0 (min (speed v - max_decel v * dt) (final_limit st v)) in
       if street_length st \<le> position_s v + ns * dt
       then street_end st (v\<lparr>lane_index := lane\<rparr>)
       else Inr (v\<lparr>lane_index := lane, speed := ns, position_s := position_s v + ns * dt\<rparr>))"
      by (rule moves [OF h1 h2 h3])
    show "let ns = max 0 (min (speed v - max_decel v * dt) (final_limit st v)) in
             ns \<le> speed v \<and>
             (0 < speed v \<and> 0 < max_decel v \<longrightarrow> ns < speed v) \<and>
             update dt (Some l) v =
               (if street_length st \<le> position_s v + ns * dt
                then street_end st (v\<lparr>lane_index := lane\<rparr>)
                else Inr (v\<lparr>lane_index := lane, speed := ns,
                            position_s := position_s v + ns * dt\<rparr>))"
      unfolding Let_def
    proof (intro conjI impI)
      show "max 0 (min (speed v - max_decel v * dt) (final_limit st v)) \<le> speed v" by (rule le)
      show "max 0 (min (speed v - max_decel v * dt) (final_limit st v)) < speed v"
        if "0 < speed v \<and> 0 < max_decel v" using that by (intro strict) simp_all
      show "update dt (Some l) v =
        (if street_length st \<le> position_s v + max 0 (min (speed v - max_decel v * dt) (final_limit st v)) * dt
         then street_end st (v\<lparr>lane_index := lane\<rparr>)
         else Inr (v\<lparr>lane_index := lane,
                     speed := max 0 (min (speed v - max_decel v * dt) (final_limit st v)),
                     position_s := position_s v
                       + max 0 (min (speed v - max_decel v * dt) (final_limit st v)) * dt\<rparr>))"
        using m by (simp add: Let_def)
    qed
  qed
qed

lemma car_following_fields:
  "done_flag car_following = False" "speed car_following = 8" "max_decel car_following = 4"
  "reaction_time car_following = 1" "position_s car_following = 0" "lane_index car_following = 0"
  "current_street car_following = Some street1"
  "position_s car_ahead = 12" "lane_index car_ahead = 0" "current_street car_ahead = Some street1"
  by (simp_all add: car_following_def car_ahead_def car_def)

lemma car_following_turn: "next_turn_direction car_following = Inr (Some ''left'')"
  by (simp add: car_following_def network_defs step_defs)

lemma car_following_lane:
  "lane_change (Some ''left'') 30 street1 car_following = Inr 1"
  by (simp add: car_following_def network_defs lane_change_def lane_allows_turn_def)

lemma car_following_limit: "final_limit street1 car_following = 10"
  by (simp add: car_following_def network_defs final_limit_def)

theorem brake_behind_close_leader_witness:
  "\<not> done_flag car_following \<and> (0::real) < 1 \<and>
   0 \<le> speed car_following \<and> 0 \<le> max_decel car_following \<and>
   current_street_id car_ahead = current_street_id car_following \<and>
   lane_index car_ahead = lane_index car_following \<and>
   position_s car_ahead - position_s car_following - 5
     < speed car_following * reaction_time car_following \<and>
   speed car_following = 8 \<and>
   update 1 (Some car_ahead) car_following =
     Inr (car_following\<lparr>lane_index := 1, speed := 4, position_s := 4\<rparr>) \<and>
   speed (state_after (update 1 (Some car_ahead) car_following)) = 4"
proof -
  have h1: "\<not> done_flag car_following" by (simp add: car_following_fields)
  have h2: "(0::real) < 1" by simp
  have h3: "0 \<le> speed car_following" by (simp add: car_following_fields)
  have h4: "0 \<le> max_decel car_following" by (simp add: car_following_fields)
  have h5: "current_street_id car_ahead = current_street_id car_following"
    by (simp add: current_street_id_def car_following_fields)
  have h6: "lane_index car_ahead = lane_index car_following" by (simp add: car_following_fields)
  have h7: "position_s car_ahead - position_s car_following - 5
             < speed car_following * reaction_time car_following"
    by (simp add: car_following_fields)
  have s: "speed car_following = 8" by (simp add: car_following_fields)
  note c = brake_behind_close_leader [OF h1 h2 h3 h4 h5 h6 h7]
  have k: "current_street car_following = Some street1 \<and>
           next_turn_direction car_following = Inr (Some ''left'') \<and>
           lane_change (Some ''left'') (street_length street1 - position_s car_following)
             street1 car_following = Inr 1"
    by (simp add: car_following_fields car_following_turn car_following_lane street_fields)
  from c have "\<forall>st td lane.
            current_street car_following = Some st \<and> next_turn_direction car_following = Inr td \<and>
            lane_change td (street_length st - position_s car_following) st car_following = Inr lane \<longrightarrow>
            (let ns = max 0 (min (speed car_following - max_decel car_following * 1)
                       (final_limit st car_following)) in
             ns \<le> speed car_following \<and>
             (0 < speed car_following \<and> 0 < max_decel car_following \<longrightarrow> ns < speed car_following) \<and>
             update 1 (Some car_ahead) car_following =
               (if street_length st \<le> position_s car_following + ns * 1
                then street_end st (car_following\<lparr>lane_index := lane\<rparr>)
                else Inr (car_following\<lparr>lane_index := lane, speed := ns,
                            position_s := position_s car_following + ns * 1\<rparr>)))"
    by blast
  from this [rule_format, OF k]
  have u: "update 1 (Some car_ahead) car_following =
     Inr (car_following\<lparr>lane_index := 1, speed := 4, position_s := 4\<rparr>)"
    by (simp add: Let_def car_following_fields car_following_limit street_fields)
  then have a: "speed (state_after (update 1 (Some car_ahead) car_following)) = 4"
    by (simp add: state_after_simps)
  show ?thesis by (intro conjI h1 h2 h3 h4 h5 h6 h7 s u a)
qed

text \<open>
  C7, as amended. With a turn pending that the current lane already allows, the lane
  change of \<open>update\<close> keeps the lane. After \<open>update\<close> the lane index is the one before,
  unless the vehicle enters the next street of its route in this tick: then it is
  \<open>min lane (num_lanes next_st - 1)\<close> for the lane before the tick.
\<close>

theorem lane_kept_when_turn_allowed:
  assumes "\<not> done_flag v" "current_street v = Some st"
    "next_turn_direction v = Inr (Some t)"
    "lane_allows_turn st (lane_index v) t = Inr True"
  shows "lane_change (Some t) (street_length st - position_s v) st v = Inr (lane_index v) \<and>
         (let v' = state_after (update dt leader v) in
          (route_index v' = route_index v \<and> lane_index v' = lane_index v) \<or>
          (\<exists>next_st. streets_map v (route_streets v ! (route_index v + 1)) = Some next_st \<and>
             current_street v' = Some next_st \<and> route_index v' = route_index v + 1 \<and>
             lane_index v' = min (lane_index v) (num_lanes next_st - 1)))"
proof -
  have lc: "lane_change (Some t) (street_length st - position_s v) st v = Inr (lane_index v)"
    using assms(4) by (rule lane_change_allowed)
  from next_turn_pending [OF assms(3)] obtain next_st where
    ri: "route_index v + 1 < length (route_streets v)" and
    nx: "streets_map v (route_streets v ! (route_index v + 1)) = Some next_st" by blast
  have same: "v\<lparr>lane_index := lane_index v\<rparr> = v" by simp
  from street_end_cases [OF ri nx, of st]
  have "(let v' = state_after (street_end st v) in
          (route_index v' = route_index v \<and> lane_index v' = lane_index v) \<or>
          (\<exists>next_st. streets_map v (route_streets v ! (route_index v + 1)) = Some next_st \<and>
             current_street v' = Some next_st \<and> route_index v' = route_index v + 1 \<and>
             lane_index v' = min (lane_index v) (num_lanes next_st - 1)))"
    using nx by (auto simp: state_after_simps Let_def)
  then have "(let v' = state_after (update dt leader v) in
          (route_index v' = route_index v \<and> lane_index v' = lane_index v) \<or>
          (\<exists>next_st. streets_map v (route_streets v ! (route_index v + 1)) = Some next_st \<and>
             current_street v' = Some next_st \<and> route_index v' = route_index v + 1 \<and>
             lane_index v' = min (lane_index v) (num_lanes next_st - 1)))"
    unfolding update_moves [OF assms(1,2,3) lc] same
    by (simp add: Let_def state_after_simps)
  with lc show ?thesis by simp
qed

theorem lane_kept_when_turn_allowed_witness:
  "\<not> done_flag (car street1 1 [1, 2] 2 True) \<and>
   current_street (car street1 1 [1, 2] 2 True) = Some street1 \<and>
   next_turn_direction (car street1 1 [1, 2] 2 True) = Inr (Some ''left'') \<and>
   lane_allows_turn street1 (lane_index (car street1 1 [1, 2] 2 True)) ''left'' = Inr True \<and>
   lane_change (Some ''left'') (street_length street1 - position_s (car street1 1 [1, 2] 2 True))
     street1 (car street1 1 [1, 2] 2 True) = Inr (lane_index (car street1 1 [1, 2] 2 True))"
proof -
  let ?v = "car street1 1 [1, 2] 2 True"
  have h1: "\<not> done_flag ?v" and h2: "current_street ?v = Some street1"
    by (simp_all add: car_fields)
  have h3: "next_turn_direction ?v = Inr (Some ''left'')" by (rule car_turns_left)
  have h4: "lane_allows_turn street1 (lane_index ?v) ''left'' = Inr True"
    by (simp add: car_fields car_lane_kept)
  note c = lane_kept_when_turn_allowed [OF h1 h2 h3 h4, of 1 None]
  show ?thesis by (intro conjI h1 h2 h3 h4 conjunct1 [OF c])
qed

text \<open>
  C7 as stated fails: the car in lane 1 of street 1, the lane for its left turn, enters
  street 2 with a single lane in a tick of 5 and is in lane 0 afterwards.
\<close>

theorem lane_kept_when_turn_allowed_counterexample:
  "\<not> done_flag (car street1 1 [1, 2] 1 True) \<and>
   next_turn_direction (car street1 1 [1, 2] 1 True) = Inr (Some ''left'') \<and>
   lane_allows_turn street1 (lane_index (car street1 1 [1, 2] 1 True)) ''left'' = Inr True \<and>
   lane_index (car street1 1 [1, 2] 1 True) = 1 \<and>
   lane_index (state_after (update 5 None (car street1 1 [1, 2] 1 True))) = 0"
  by (simp add: network_defs step_defs state_after_def)

text \<open>
  C10. \<open>Vehicle.__init__\<close> sets the cached base speed limit to the limit of the street
  times the speed factor, and \<open>update\<close> keeps it so for the street the vehicle is on
  afterwards; hence the ceiling of the speed update is the limit of the current street
  times the speed factor, which is the cached value itself.
\<close>

theorem base_speed_limit_is_street_limit:
  "(Vehicle_init vid prof cst lane route smap imap = Inr v0 \<longrightarrow> cache_ok v0) \<and>
   (cache_ok v \<longrightarrow>
      cache_ok (state_after (update dt leader v)) \<and>
      (\<forall>st. current_street v = Some st \<longrightarrow>
         final_limit st v = speed_limit st * speed_factor v \<and>
         final_limit st v = base_speed_limit v))"
proof -
  have "cache_ok v0" if "Vehicle_init vid prof cst lane route smap imap = Inr v0"
    using that by (auto simp: Vehicle_init_def cache_ok_def split: option.splits)
  moreover have "final_limit st v = speed_limit st * speed_factor v \<and> final_limit st v = base_speed_limit v"
    if "cache_ok v" "current_street v = Some st" for st
    using that by (simp add: cache_ok_def final_limit_def Let_def)
  ultimately show ?thesis using update_cache by blast
qed

theorem base_speed_limit_is_street_limit_witness:
  "Vehicle_init 1 ''normal'' (Some street1) 0 [1, 2] [1 \<mapsto> street1, 2 \<mapsto> street2 2]
     [''N1'' \<mapsto> gate True] = Inr (car street1 0 [1, 2] 2 True) \<and>
   cache_ok (car street1 0 [1, 2] 2 True) \<and>
   current_street (car street1 0 [1, 2] 2 True) = Some street1 \<and>
   cache_ok (state_after (update 5 None (car street1 0 [1, 2] 2 True))) \<and>
   final_limit street1 (car street1 0 [1, 2] 2 True)
     = speed_limit street1 * speed_factor (car street1 0 [1, 2] 2 True) \<and>
   final_limit street1 (car street1 0 [1, 2] 2 True) = base_speed_limit (car street1 0 [1, 2] 2 True)"
proof -
  let ?v = "car street1 0 [1, 2] 2 True"
  have h1: "Vehicle_init 1 ''normal'' (Some street1) 0 [1, 2] [1 \<mapsto> street1, 2 \<mapsto> street2 2]
     [''N1'' \<mapsto> gate True] = Inr ?v"
    by (simp add: Vehicle_init_def VEHICLE_PROFILES_def car_def)
  have h2: "current_street ?v = Some street1" by (simp add: car_fields)
  note c = base_speed_limit_is_street_limit [of 1 "''normal''" "Some street1" 0 "[1, 2]"
      "[1 \<mapsto> street1, 2 \<mapsto> street2 2]" "[''N1'' \<mapsto> gate True]" ?v ?v 5 None]
  from c h1 have k: "cache_ok ?v" by blast
  with c h2 show ?thesis using h1 by blast
qed

section \<open>The turn classification\<close>

lemma atan2_bounds: "- pi < atan2 y x \<and> atan2 y x \<le> pi"
proof -
  have a: "- (pi / 2) < arctan (y / x)" "arctan (y / x) < pi / 2"
    by (rule arctan_lbound, rule arctan_ubound)
  have p: "0 < pi" by (rule pi_gt_zero)
  have neg: "arctan (y / x) \<le> 0" if "x < 0" "0 \<le> y"
  proof -
    have "y / x \<le> 0" using that by (simp add: divide_nonneg_neg)
    then have "arctan (y / x) \<le> arctan 0" by (simp only: arctan_le_iff)
    then show ?thesis by simp
  qed
  have pos: "0 < arctan (y / x)" if "x < 0" "y < 0"
  proof -
    have "0 < y / x" using that by (simp add: divide_neg_neg)
    then have "arctan 0 < arctan (y / x)" by (simp only: arctan_less_iff)
    then show ?thesis by simp
  qed
  show ?thesis
    unfolding atan2_def using a p neg pos by (auto simp: not_less)
qed

lemma next_turn_direction_headings:
  "next_turn_direction v =
     (case turn_headings v of
        Inl e \<Rightarrow> Inl e
      | Inr None \<Rightarrow> Inr None
      | Inr (Some (a1, a2)) \<Rightarrow> Inr (Some (turn_of_diff (degrees (a2 - a1)))))"
  by (simp add: next_turn_direction_def turn_headings_def turn_of_diff_def Let_def
      split: option.splits)

lemma turn_headings_bounds:
  "turn_headings v = Inr (Some (a1, a2)) \<Longrightarrow> - pi < a1 \<and> a1 \<le> pi \<and> - pi < a2 \<and> a2 \<le> pi"
  by (auto simp: turn_headings_def Let_def atan2_bounds split: if_splits option.splits)

lemma degrees_bounds:
  assumes "- pi < a1" "a1 \<le> pi" "- pi < a2" "a2 \<le> pi"
  shows "- 360 < degrees (a2 - a1) \<and> degrees (a2 - a1) < 360"
proof -
  have p: "0 < pi" by (rule pi_gt_zero)
  have "- (2 * pi) < a2 - a1" "a2 - a1 < 2 * pi" using assms by simp_all
  then have "- (2 * pi) * (180 / pi) < (a2 - a1) * (180 / pi)"
    "(a2 - a1) * (180 / pi) < (2 * pi) * (180 / pi)"
    using p by (simp_all only: mult_less_cancel_right_pos [of "180 / pi"] divide_pos_pos zero_less_numeral)
  then show ?thesis using p by (simp add: degrees_def)
qed

lemma normalize_spec_cases:
  assumes "- 360 < d" "d < 360"
  shows "normalize_spec d = (if d > 180 then d - 360 else if d \<le> - 180 then d + 360 else d)"
proof -
  consider "d > 180" | "d \<le> - 180" | "- 180 < d" "d \<le> 180" by linarith
  then show ?thesis
  proof cases
    case 1
    have "\<lceil>(d - 180) / 360\<rceil> = 1" using 1 assms by (intro ceiling_unique) simp_all
    with 1 show ?thesis by (simp add: normalize_spec_def)
  next
    case 2
    have "\<lceil>(d - 180) / 360\<rceil> = - 1" using 2 assms by (intro ceiling_unique) simp_all
    with 2 show ?thesis by (simp add: normalize_spec_def)
  next
    case 3
    have "\<lceil>(d - 180) / 360\<rceil> = 0" using 3 assms by (intro ceiling_unique) simp_all
    with 3 show ?thesis by (simp add: normalize_spec_def)
  qed
qed

lemma turn_of_diff_spec:
  assumes "- 360 < d" "d < 360" "d \<noteq> - 180"
  shows "turn_of_diff d = classify_spec d"
  using assms by (simp add: turn_of_diff_def classify_spec_def normalize_spec_cases Let_def)

lemma turn_of_diff_reversal: "turn_of_diff (- 180) = ''left''"
  by (simp add: turn_of_diff_def)

text \<open>
  C6, as amended. \<open>_next_turn_direction\<close> returns \<open>None\<close> when the route has no street
  beyond the current one. Otherwise it classifies the difference of the two \<open>atan2\<close>
  headings in degrees: a difference of exactly -180 stays -180 and gives left; every
  other difference is normalised into \<open>(-180, 180]\<close> and gives right above 30, left
  below -30 and through otherwise. The normalised difference thus lies in \<open>[-180, 180]\<close>.
\<close>

theorem next_turn_direction_classifies:
  "next_turn_direction v =
     (case turn_headings v of
        Inl e \<Rightarrow> Inl e
      | Inr None \<Rightarrow> Inr None
      | Inr (Some (a1, a2)) \<Rightarrow>
          if degrees (a2 - a1) = - 180 then Inr (Some ''left'')
          else Inr (Some (classify_spec (degrees (a2 - a1)))))"
proof (cases "turn_headings v")
  case (Inl e)
  then show ?thesis by (simp add: next_turn_direction_headings)
next
  case (Inr h)
  show ?thesis
  proof (cases h)
    case None
    with Inr show ?thesis by (simp add: next_turn_direction_headings)
  next
    case (Some p)
    obtain a1 a2 where p: "p = (a1, a2)" by (cases p)
    from Inr Some p have th: "turn_headings v = Inr (Some (a1, a2))" by simp
    from turn_headings_bounds [OF th] have "- 360 < degrees (a2 - a1) \<and> degrees (a2 - a1) < 360"
      by (intro degrees_bounds) simp_all
    then show ?thesis
      using th by (simp add: next_turn_direction_headings turn_of_diff_spec turn_of_diff_reversal)
  qed
qed

lemma car_reversing_headings: "turn_headings car_reversing = Inr (Some (pi, 0))"
  by (simp add: car_reversing_def street_west_def street_east_def turn_headings_def atan2_def)

theorem next_turn_direction_classifies_witness:
  "turn_headings car_reversing = Inr (Some (pi, 0)) \<and> degrees (0 - pi) = - 180 \<and>
   next_turn_direction car_reversing = Inr (Some ''left'')"
proof -
  have d: "degrees (0 - pi) = - 180" by (simp add: degrees_def)
  have d': "degrees (- pi) = - 180" by (simp add: degrees_def)
  have "next_turn_direction car_reversing = Inr (Some ''left'')"
    using next_turn_direction_classifies [of car_reversing]
    by (simp add: car_reversing_headings d')
  with car_reversing_headings d show ?thesis by simp
qed

text \<open>
  C6 as stated fails at a reversal: from a street running west into a street running
  east the difference is exactly -180 degrees. Normalised into \<open>(-180, 180]\<close> it is 180,
  a right turn; \<open>_next_turn_direction\<close> leaves it at -180 and returns left.
\<close>

theorem next_turn_direction_classifies_counterexample:
  "turn_headings car_reversing = Inr (Some (pi, 0)) \<and>
   normalize_spec (degrees (0 - pi)) = 180 \<and>
   next_turn_direction_spec car_reversing = Inr (Some ''right'') \<and>
   next_turn_direction car_reversing = Inr (Some ''left'')"
proof -
  have d: "degrees (0 - pi) = - 180" by (simp add: degrees_def)
  have d': "degrees (- pi) = - 180" by (simp add: degrees_def)
  have n: "normalize_spec (- 180) = 180" by (simp add: normalize_spec_def)
  have s: "next_turn_direction_spec car_reversing = Inr (Some ''right'')"
    by (simp add: next_turn_direction_spec_def car_reversing_headings d' classify_spec_def n)
  have c: "next_turn_direction car_reversing = Inr (Some ''left'')"
    by (simp add: next_turn_direction_headings car_reversing_headings d' turn_of_diff_def)
  from car_reversing_headings d n s c show ?thesis by simp
qed

section \<open>The placement loop\<close>

lemma batch_size:
  assumes "0 < vc"
  shows "1 \<le> 1 + int (r mod nat vc) \<and> 1 + int (r mod nat vc) \<le> vc"
proof -
  have "0 < nat vc" using assms by simp
  then have "r mod nat vc < nat vc" by (rule mod_less_divisor)
  then have "int (r mod nat vc) < vc" using assms by linarith
  then show ?thesis by simp
qed

lemma create_vehicles_result:
  assumes "create_vehicles cv streets rnd sim = Some y" "0 \<le> vehicle_count sim"
  shows "case y of
           Inr r \<Rightarrow> vehicle_count r = 0 \<and> placed r = placed sim + vehicle_count sim
         | Inl (e, r) \<Rightarrow> e = IndexError \<and> streets = [] \<and> 0 < vehicle_count r \<and>
             placed r + vehicle_count r = placed sim + vehicle_count sim"
proof -
  let ?Q = "\<lambda>streets sim y. case y of
           Inr r \<Rightarrow> vehicle_count r = 0 \<and> placed r = placed sim + vehicle_count sim
         | Inl (e, r) \<Rightarrow> e = IndexError \<and> streets = [] \<and> 0 < vehicle_count r \<and>
             placed r + vehicle_count r = placed sim + vehicle_count sim"
  have "0 \<le> vehicle_count sim \<longrightarrow> ?Q streets sim y"
  proof (rule create_vehicles.raw_induct
      [where P = "\<lambda>cv streets rnd sim y. 0 \<le> vehicle_count sim \<longrightarrow> ?Q streets sim y", OF _ assms(1)], goal_cases)
    case (1 rec cv streets rnd sim y)
    show ?case
    proof
      assume nn: "0 \<le> vehicle_count sim"
      show "?Q streets sim y"
      proof (cases "0 < vehicle_count sim")
        case False
        with 1(2) nn show ?thesis by auto
      next
        case pos: True
        show ?thesis
        proof (cases "streets = []")
          case True
          with pos 1(2) show ?thesis by auto
        next
          case ne: False
          let ?street = "streets ! (rnd (draws sim) mod length streets)"
          let ?count = "1 + int (rnd (draws sim + 1) mod nat (vehicle_count sim))"
          let ?res = "cv (city_layout sim) ?street ?count"
          let ?sim' = "sim\<lparr>city_layout := snd ?res, draws := draws sim + 2\<rparr>"
          from batch_size [OF pos] have c: "1 \<le> ?count" "?count \<le> vehicle_count sim"
            by simp_all
          show ?thesis
          proof (cases "fst ?res")
            case True
            let ?s2 = "?sim'\<lparr>vehicle_count := vehicle_count sim - ?count,
                             placed := placed sim + ?count\<rparr>"
            from 1(2) pos ne True have "rec cv streets rnd ?s2 = Some y" by (simp add: Let_def)
            from 1(1) [OF this] c have "?Q streets ?s2 y" by simp
            then show ?thesis by (auto split: sum.splits)
          next
            case False
            from 1(2) pos ne False have "rec cv streets rnd ?sim' = Some y" by (simp add: Let_def)
            from 1(1) [OF this] nn have "?Q streets ?sim' y" by simp
            then show ?thesis by (auto split: sum.splits)
          qed
        qed
      qed
    qed
  qed
  with assms(2) show ?thesis by simp
qed

lemma create_vehicles_accepting:
  assumes "\<forall>net st count. fst (cv net st count)" "streets \<noteq> []"
  shows "\<exists>r. create_vehicles cv streets rnd sim = Some (Inr r)"
proof (induction "nat (vehicle_count sim)" arbitrary: sim rule: less_induct)
  case less
  show ?case
  proof (cases "0 < vehicle_count sim")
    case False
    then show ?thesis by (subst create_vehicles.simps) simp
  next
    case pos: True
    let ?street = "streets ! (rnd (draws sim) mod length streets)"
    let ?count = "1 + int (rnd (draws sim + 1) mod nat (vehicle_count sim))"
    let ?res = "cv (city_layout sim) ?street ?count"
    let ?s2 = "sim\<lparr>city_layout := snd ?res, draws := draws sim + 2,
                   vehicle_count := vehicle_count sim - ?count, placed := placed sim + ?count\<rparr>"
    from batch_size [OF pos] have c: "1 \<le> ?count" "?count \<le> vehicle_count sim" by simp_all
    have step: "create_vehicles cv streets rnd sim = create_vehicles cv streets rnd ?s2"
      using pos assms by (subst create_vehicles.simps) (simp add: Let_def)
    have "nat (vehicle_count ?s2) < nat (vehicle_count sim)" using c pos by simp
    from less [OF this] show ?thesis unfolding step .
  qed
qed

lemma create_vehicles_rejecting:
  assumes "create_vehicles cv streets rnd sim = Some y"
  shows "\<not> ((\<forall>net st count. \<not> fst (cv net st count)) \<and> streets \<noteq> [] \<and> 0 < vehicle_count sim)"
proof (rule create_vehicles.raw_induct
      [where P = "\<lambda>cv streets rnd sim y.
         \<not> ((\<forall>net st count. \<not> fst (cv net st count)) \<and> streets \<noteq> [] \<and> 0 < vehicle_count sim)",
       OF _ assms], goal_cases)
  case (1 rec cv streets rnd sim y)
  show ?case
  proof
    assume a: "(\<forall>net st count. \<not> fst (cv net st count)) \<and> streets \<noteq> [] \<and> 0 < vehicle_count sim"
    let ?street = "streets ! (rnd (draws sim) mod length streets)"
    let ?count = "1 + int (rnd (draws sim + 1) mod nat (vehicle_count sim))"
    let ?sim' = "sim\<lparr>city_layout := snd (cv (city_layout sim) ?street ?count),
                     draws := draws sim + 2\<rparr>"
    from 1(2) a have "rec cv streets rnd ?sim' = Some y" by (simp add: Let_def)
    from 1(1) [OF this] a show False by simp
  qed
qed

text \<open>
  With the capacity policy the free places of the streets never suffice once they are
  fewer than the vehicles that remain: every accepted batch lowers both by the same
  amount.
\<close>

lemma capacity_after_batch:
  assumes "finite S" "st \<in> S"
  shows "sum (free(st := free st - count)) S = sum free S - (count::int)"
proof -
  have "sum (free(st := free st - count)) S
          = (free(st := free st - count)) st + sum (free(st := free st - count)) (S - {st})"
    using assms by (rule sum.remove)
  also have "sum (free(st := free st - count)) (S - {st}) = sum free (S - {st})"
    by (rule sum.cong) simp_all
  also have "(free(st := free st - count)) st + sum free (S - {st})
               = free st + sum free (S - {st}) - count" by simp
  also have "free st + sum free (S - {st}) = sum free S"
    using assms by (rule sum.remove [symmetric])
  finally show ?thesis .
qed

lemma create_vehicles_short_of_places:
  assumes "create_vehicles cv streets rnd sim = Some y"
  shows "\<not> (cv = capacity_policy \<and> streets \<noteq> [] \<and> (\<forall>st \<in> set streets. 0 \<le> city_layout sim st) \<and>
            sum (city_layout sim) (set streets) < vehicle_count sim)"
proof (rule create_vehicles.raw_induct
      [where P = "\<lambda>cv streets rnd sim y.
         \<not> (cv = capacity_policy \<and> streets \<noteq> [] \<and> (\<forall>st \<in> set streets. 0 \<le> city_layout sim st) \<and>
            sum (city_layout sim) (set streets) < vehicle_count sim)",
       OF _ assms], goal_cases)
  case (1 rec cv streets rnd sim y)
  show ?case
  proof
    assume a: "cv = capacity_policy \<and> streets \<noteq> [] \<and> (\<forall>st \<in> set streets. 0 \<le> city_layout sim st) \<and>
            sum (city_layout sim) (set streets) < vehicle_count sim"
    let ?free = "city_layout sim"
    let ?street = "streets ! (rnd (draws sim) mod length streets)"
    let ?count = "1 + int (rnd (draws sim + 1) mod nat (vehicle_count sim))"
    have nn: "0 \<le> sum ?free (set streets)" using a by (intro sum_nonneg) simp
    with a have pos: "0 < vehicle_count sim" by linarith
    from batch_size [OF pos] have c: "1 \<le> ?count" "?count \<le> vehicle_count sim" by simp_all
    have mem: "?street \<in> set streets" using a by (intro nth_mem) simp
    show False
    proof (cases "?count \<le> ?free ?street")
      case True
      let ?free' = "?free(?street := ?free ?street - ?count)"
      let ?s2 = "sim\<lparr>city_layout := ?free', draws := draws sim + 2,
                     vehicle_count := vehicle_count sim - ?count, placed := placed sim + ?count\<rparr>"
      from 1(2) a pos True have r: "rec capacity_policy streets rnd ?s2 = Some y"
        by (simp add: Let_def capacity_policy_def)
      have "\<forall>st \<in> set streets. 0 \<le> ?free' st" using a True by auto
      moreover have "sum ?free' (set streets) = sum ?free (set streets) - ?count"
        using mem by (intro capacity_after_batch) simp_all
      ultimately show False using 1(1) [OF r] a by simp
    next
      case False
      let ?s1 = "sim\<lparr>city_layout := ?free, draws := draws sim + 2\<rparr>"
      from 1(2) a pos False have r: "rec capacity_policy streets rnd ?s1 = Some y"
        by (simp add: Let_def capacity_policy_def)
      show False using 1(1) [OF r] a by simp
    qed
  qed
qed

text \<open>
  C8, as amended. The loop of \<open>_create_vehicles\<close> has no bound on its retries. For a
  requested count that is not negative: when it returns, the remaining count is exactly
  0 and the batches placed add up to exactly the requested count, never more; it raises
  only IndexError, at once, when there is no street and the count is positive; it
  returns when the streets accept every batch; and it never ends when there is a street,
  the count is positive and every batch is refused. So it is with the capacity policy:
  the loop never ends when the streets have fewer free places than vehicles are requested.
\<close>

theorem create_vehicles_places_all:
  assumes "0 \<le> vehicle_count sim"
  shows "(\<forall>r. create_vehicles cv streets rnd sim = Some (Inr r) \<longrightarrow>
            vehicle_count r = 0 \<and> placed r = placed sim + vehicle_count sim) \<and>
         (\<forall>e r. create_vehicles cv streets rnd sim = Some (Inl (e, r)) \<longrightarrow>
            e = IndexError \<and> streets = [] \<and> 0 < vehicle_count r) \<and>
         ((\<forall>net st count. fst (cv net st count)) \<and> streets \<noteq> [] \<longrightarrow>
            (\<exists>r. create_vehicles cv streets rnd sim = Some (Inr r))) \<and>
         ((\<forall>net st count. \<not> fst (cv net st count)) \<and> streets \<noteq> [] \<and> 0 < vehicle_count sim \<longrightarrow>
            create_vehicles cv streets rnd sim = None) \<and>
         (\<forall>roads rnd' town.
            roads \<noteq> [] \<and> (\<forall>st \<in> set roads. 0 \<le> city_layout town st) \<and>
            sum (city_layout town) (set roads) < vehicle_count town \<longrightarrow>
            create_vehicles capacity_policy roads rnd' town = None)"
proof (intro conjI allI impI)
  fix r
  assume "create_vehicles cv streets rnd sim = Some (Inr r)"
  from create_vehicles_result [OF this assms]
  show "vehicle_count r = 0" and "placed r = placed sim + vehicle_count sim" by simp_all
next
  fix e r
  assume "create_vehicles cv streets rnd sim = Some (Inl (e, r))"
  from create_vehicles_result [OF this assms]
  show "e = IndexError" and "streets = []" and "0 < vehicle_count r" by simp_all
next
  assume "(\<forall>net st count. fst (cv net st count)) \<and> streets \<noteq> []"
  then show "\<exists>r. create_vehicles cv streets rnd sim = Some (Inr r)"
    by (intro create_vehicles_accepting) simp_all
next
  assume a: "(\<forall>net st count. \<not> fst (cv net st count)) \<and> streets \<noteq> [] \<and> 0 < vehicle_count sim"
  show "create_vehicles cv streets rnd sim = None"
  proof (cases "create_vehicles cv streets rnd sim")
    case None
    then show ?thesis .
  next
    case (Some y)
    from create_vehicles_rejecting [OF this] a show ?thesis by blast
  qed
next
  fix roads :: "nat list" and rnd' :: "nat \<Rightarrow> nat" and town :: "(nat \<Rightarrow> int) simulator"
  assume a: "roads \<noteq> [] \<and> (\<forall>st \<in> set roads. 0 \<le> city_layout town st) \<and>
            sum (city_layout town) (set roads) < vehicle_count town"
  show "create_vehicles capacity_policy roads rnd' town = None"
  proof (cases "create_vehicles capacity_policy roads rnd' town")
    case None
    then show ?thesis .
  next
    case (Some y)
    from create_vehicles_short_of_places [OF this] a show ?thesis by blast
  qed
qed

lemma fleet_of_one:
  "create_vehicles capacity_policy [0] rnd (fleet five_each 1) =
     Some (Inr \<lparr> vehicle_count = 0, city_layout = five_each(0 := 4), draws = 2, placed = 1 \<rparr>)"
  by (simp add: create_vehicles.simps fleet_def capacity_policy_def five_each_def Let_def)

theorem create_vehicles_places_all_witness:
  "\<forall>rnd. 0 \<le> vehicle_count (fleet five_each 1) \<and>
     create_vehicles capacity_policy [0] rnd (fleet five_each 1) =
       Some (Inr \<lparr> vehicle_count = 0, city_layout = five_each(0 := 4), draws = 2, placed = 1 \<rparr>) \<and>
     vehicle_count \<lparr> vehicle_count = 0, city_layout = five_each(0 := 4), draws = 2, placed = 1 \<rparr> = 0 \<and>
     placed \<lparr> vehicle_count = 0, city_layout = five_each(0 := 4), draws = 2, placed = 1 \<rparr>
       = placed (fleet five_each 1) + vehicle_count (fleet five_each 1)"
proof
  fix rnd :: "nat \<Rightarrow> nat"
  have h: "0 \<le> vehicle_count (fleet five_each 1)" by (simp add: fleet_def)
  note c = create_vehicles_places_all [OF h, of capacity_policy "[0]" rnd]
  from c fleet_of_one [of rnd] have
    "vehicle_count \<lparr> vehicle_count = 0, city_layout = five_each(0 := 4), draws = 2, placed = 1 \<rparr> = 0 \<and>
     placed \<lparr> vehicle_count = 0, city_layout = five_each(0 := 4), draws = 2, placed = 1 \<rparr>
       = placed (fleet five_each 1) + vehicle_count (fleet five_each 1)"
    by blast
  with h fleet_of_one [of rnd] show "0 \<le> vehicle_count (fleet five_each 1) \<and>
     create_vehicles capacity_policy [0] rnd (fleet five_each 1) =
       Some (Inr \<lparr> vehicle_count = 0, city_layout = five_each(0 := 4), draws = 2, placed = 1 \<rparr>) \<and>
     vehicle_count \<lparr> vehicle_count = 0, city_layout = five_each(0 := 4), draws = 2, placed = 1 \<rparr> = 0 \<and>
     placed \<lparr> vehicle_count = 0, city_layout = five_each(0 := 4), draws = 2, placed = 1 \<rparr>
       = placed (fleet five_each 1) + vehicle_count (fleet five_each 1)"
    by blast
qed

text \<open>
  C8 as stated fails: ten vehicles are requested on two streets with two places each.
  Whatever numbers the random generator draws, at most four vehicles are placed, the
  remaining count never reaches 0, and the loop never ends.
\<close>

theorem create_vehicles_places_all_counterexample:
  "vehicle_count (fleet two_each 10) = 10 \<and> two_each 0 + two_each 1 = 4 \<and>
   (\<forall>rnd. create_vehicles capacity_policy [0, 1] rnd (fleet two_each 10) = None)"
proof -
  have "create_vehicles capacity_policy [0, 1] rnd (fleet two_each 10) = None" for rnd
  proof (cases "create_vehicles capacity_policy [0, 1] rnd (fleet two_each 10)")
    case None
    then show ?thesis .
  next
    case (Some y)
    have "sum two_each (set [0, 1]) = 4" by (simp add: two_each_def)
    with create_vehicles_short_of_places [OF Some] show ?thesis
      by (simp add: fleet_def two_each_def)
  qed
  then show ?thesis by (simp add: fleet_def two_each_def)
qed

end
